theory Spec2Isabelle
  imports Main "HOL-Library.AList"
begin

section \<open>The encrypted local store\<close>

subsection \<open>Errors\<close>

text \<open>
  Go reports failures as \<open>error\<close> values built with \<open>fmt.Errorf\<close>; each distinct
  error site of the local store is one constructor here.  \<open>NilMapAssignment\<close> is the
  run-time panic of an assignment to an entry of a nil map.
\<close>

datatype error =
    StatError                \<comment> \<open>\<open>os.Stat\<close> failed in \<open>getModTime\<close>\<close>
  | OpenError                \<comment> \<open>\<open>os.Open\<close> failed in \<open>loadSecrets\<close>\<close>
  | DecodeError              \<comment> \<open>\<open>decoder.Decode\<close> failed in \<open>loadSecrets\<close>\<close>
  | KeyEmpty                 \<comment> \<open>"key cannot be empty"\<close>
  | ValueNil                 \<comment> \<open>"value cannot be nil"\<close>
  | MapstructureError        \<comment> \<open>\<open>mapstructure.Decode\<close> failed\<close>
  | MarshalError             \<comment> \<open>"failed to marshal value to JSON"\<close>
  | EncryptError             \<comment> \<open>"failed to encrypt secret"\<close>
  | NoSecretFound string     \<comment> \<open>"no secret found for <key>"\<close>
  | DecryptError             \<comment> \<open>"failed to decrypt secret"\<close>
  | UnmarshalError           \<comment> \<open>"failed to unmarshal decrypted JSON"\<close>
  | OpenFileError            \<comment> \<open>\<open>os.OpenFile\<close> failed in \<open>SaveSecrets\<close>\<close>
  | EncodeError              \<comment> \<open>\<open>enc.Encode\<close> failed in \<open>SaveSecrets\<close>\<close>
  | SyncError                \<comment> \<open>\<open>f.Sync\<close> failed in \<open>SaveSecrets\<close>\<close>
  | SaveAfterDeletion error  \<comment> \<open>"failed to save secrets after deletion: <cause>"\<close>
  | NoSecretsFound           \<comment> \<open>"no secrets found"\<close>
  | NilMapAssignment         \<comment> \<open>panic: assignment to entry in nil map\<close>

subsection \<open>The file system\<close>

text \<open>
  A Go \<open>map[string]string\<close> is an association list read through \<open>map_of\<close>; the order
  of the list stands for the unspecified iteration order of the Go map.

  The content of a file is kept as what \<open>json.Decoder.Decode\<close> makes of it when the target
  is a \<open>map[string]string\<close>: an object of strings, the literal \<open>null\<close> (which sets
  the target map to nil), or anything else (an empty or truncated file, other JSON), on
  which decoding fails. Keys and ciphertexts are taken to be valid UTF-8, which the JSON
  encoder writes and the decoder reads back unchanged.
\<close>

type_synonym secrets = "(string \<times> string) list"

datatype document = JObject secrets | JNull | JInvalid

record file_info =
  content :: document
  modTime :: nat

text \<open>
  The operating system may refuse each of the calls the store makes. Which calls fail at a
  given moment is part of the state of the world, chosen by the environment.
\<close>

datatype fault = StatFails | OpenFails | OpenFileFails | EncodeFails | SyncFails

record world =
  files :: "string \<rightharpoonup> file_info"
  now :: nat
  faults :: "fault set"
  entropy :: nat

subsection \<open>The store\<close>

text \<open>
  \<open>Secrets\<close> is \<open>None\<close> for a nil map. \<open>time.Time\<close> is a natural number and
  \<open>After\<close> is \<open>>\<close>. The lock \<open>mu\<close> is not part of the sequential model.
\<close>

record LocalStore =
  masterKey :: string
  filename :: string
  Secrets :: "secrets option"
  lastModTime :: nat

text \<open>
  The helpers that are not part of the store's own source file are parameters of the
  model: \<open>mapstructure.Decode\<close>, \<open>json.Marshal\<close> and \<open>json.Unmarshal\<close> of the
  libraries, and \<open>deriveAESKey\<close>, \<open>encryptAESGCM\<close> and \<open>decryptAESGCM\<close> of the
  package. \<open>None\<close> is a returned error. Encryption draws a fresh nonce; the randomness
  it reads is the \<open>entropy\<close> of the world. \<open>json.Unmarshal\<close> writes into the value
  the output pointer refers to and is given that value.
\<close>

record ('v, 'm, 'o) helpers =
  mapstructure_Decode :: "'v \<Rightarrow> 'm option"
  json_Marshal :: "'m \<Rightarrow> string option"
  json_Unmarshal :: "string \<Rightarrow> 'o \<Rightarrow> 'o option"
  deriveAESKey :: "string \<Rightarrow> string \<Rightarrow> string"
  encryptAESGCM :: "nat \<Rightarrow> string \<Rightarrow> string \<Rightarrow> string option"
  decryptAESGCM :: "string \<Rightarrow> string \<Rightarrow> string option"

definition getModTime :: "world \<Rightarrow> string \<Rightarrow> error + nat" where
  "getModTime w name =
     (if StatFails \<in> faults w then Inl StatError
      else case files w name of
             None \<Rightarrow> Inl StatError
           | Some info \<Rightarrow> Inr (modTime info))"

definition loadSecrets :: "world \<Rightarrow> string \<Rightarrow> error + secrets option" where
  "loadSecrets w jsonFile =
     (if OpenFails \<in> faults w then Inl OpenError
      else case files w jsonFile of
             None \<Rightarrow> Inl OpenError
           | Some info \<Rightarrow>
               (case content info of
                  JObject store \<Rightarrow> Inr (Some store)
                | JNull \<Rightarrow> Inr None
                | JInvalid \<Rightarrow> Inl DecodeError))"

text \<open>
  \<open>json.Encoder.Encode\<close> writes \<open>null\<close> for a nil map and an object otherwise.
\<close>

definition encode :: "secrets option \<Rightarrow> document" where
  "encode store = (case store of None \<Rightarrow> JNull | Some m \<Rightarrow> JObject m)"

text \<open>
  \<open>SaveSecrets\<close> opens the file with \<open>O_WRONLY|O_CREATE|O_TRUNC\<close>, which creates
  or empties it and sets its modification time, then writes the document, then syncs.
  A failure after the open leaves the emptied (or partly written) file behind.
\<close>

definition SaveSecrets :: "world \<Rightarrow> string \<Rightarrow> secrets option \<Rightarrow> (error + unit) \<times> world" where
  "SaveSecrets w jsonFile store =
     (if OpenFileFails \<in> faults w then (Inl OpenFileError, w)
      else if EncodeFails \<in> faults w then
        (Inl EncodeError,
         w\<lparr>files := (files w)(jsonFile \<mapsto> \<lparr>content = JInvalid, modTime = now w\<rparr>)\<rparr>)
      else if SyncFails \<in> faults w then
        (Inl SyncError,
         w\<lparr>files := (files w)(jsonFile \<mapsto> \<lparr>content = encode store, modTime = now w\<rparr>)\<rparr>)
      else
        (Inr (),
         w\<lparr>files := (files w)(jsonFile \<mapsto> \<lparr>content = encode store, modTime = now w\<rparr>)\<rparr>))"

definition reloadIfChanged :: "world \<Rightarrow> LocalStore \<Rightarrow> error + LocalStore" where
  "reloadIfChanged w l =
     (case getModTime w (filename l) of
        Inl err \<Rightarrow> Inl err
      | Inr currentModTime \<Rightarrow>
          if currentModTime > lastModTime l then
            (case loadSecrets w (filename l) of
               Inl err \<Rightarrow> Inl err
             | Inr secrets \<Rightarrow> Inr (l\<lparr>Secrets := secrets, lastModTime := currentModTime\<rparr>))
          else Inr l)"

text \<open>Reading an entry of a Go map; a nil map has no entries.\<close>

definition entry :: "secrets option \<Rightarrow> string \<Rightarrow> string option" where
  "entry store key = (case store of None \<Rightarrow> None | Some m \<Rightarrow> map_of m key)"

text \<open>
  Each operation returns its result, the store as the call leaves it and, where the call
  writes, the world as the call leaves it. A nil \<open>value\<close> is \<open>None\<close>.
\<close>

definition Store ::
  "('v, 'm, 'o) helpers \<Rightarrow> world \<Rightarrow> LocalStore \<Rightarrow> string \<Rightarrow> 'v option
     \<Rightarrow> (error + unit) \<times> LocalStore \<times> world" where
  "Store h w l key val =
     (case reloadIfChanged w l of
        Inl err \<Rightarrow> (Inl err, l, w)
      | Inr l1 \<Rightarrow>
          if key = [] then (Inl KeyEmpty, l1, w)
          else case val of
            None \<Rightarrow> (Inl ValueNil, l1, w)
          | Some v \<Rightarrow>
              (case mapstructure_Decode h v of
                 None \<Rightarrow> (Inl MapstructureError, l1, w)
               | Some data \<Rightarrow>
                   (case json_Marshal h data of
                      None \<Rightarrow> (Inl MarshalError, l1, w)
                    | Some jsonData \<Rightarrow>
                        (case encryptAESGCM h (entropy w)
                                (deriveAESKey h (masterKey l1) key) jsonData of
                           None \<Rightarrow> (Inl EncryptError, l1, w)
                         | Some encryptedSecret \<Rightarrow>
                             (case Secrets l1 of
                                None \<Rightarrow> (Inl NilMapAssignment, l1, w)
                              | Some m \<Rightarrow>
                                  (let l2 = l1\<lparr>Secrets :=
                                              Some (AList.update key encryptedSecret m)\<rparr>;
                                       (res, w2) = SaveSecrets w (filename l2) (Secrets l2)
                                   in (res, l2, w2)))))))"

definition Lookup ::
  "('v, 'm, 'o) helpers \<Rightarrow> world \<Rightarrow> LocalStore \<Rightarrow> string \<Rightarrow> 'o
     \<Rightarrow> (error + 'o) \<times> LocalStore" where
  "Lookup h w l key output =
     (case reloadIfChanged w l of
        Inl err \<Rightarrow> (Inl err, l)
      | Inr l1 \<Rightarrow>
          if key = [] then (Inl KeyEmpty, l1)
          else case entry (Secrets l1) key of
            None \<Rightarrow> (Inl (NoSecretFound key), l1)
          | Some encrypted \<Rightarrow>
              (case decryptAESGCM h (deriveAESKey h (masterKey l1) key) encrypted of
                 None \<Rightarrow> (Inl DecryptError, l1)
               | Some decrypted \<Rightarrow>
                   (case json_Unmarshal h decrypted output of
                      None \<Rightarrow> (Inl UnmarshalError, l1)
                    | Some out \<Rightarrow> (Inr out, l1))))"

text \<open>\<open>delete\<close> on a nil map does nothing.\<close>

definition Delete ::
  "world \<Rightarrow> LocalStore \<Rightarrow> string \<Rightarrow> (error + unit) \<times> LocalStore \<times> world" where
  "Delete w l key =
     (case reloadIfChanged w l of
        Inl err \<Rightarrow> (Inl err, l, w)
      | Inr l1 \<Rightarrow>
          if key = [] then (Inl KeyEmpty, l1, w)
          else case entry (Secrets l1) key of
            None \<Rightarrow> (Inl (NoSecretFound key), l1, w)
          | Some _ \<Rightarrow>
              (let l2 = l1\<lparr>Secrets := map_option (AList.delete key) (Secrets l1)\<rparr>;
                   (res, w2) = SaveSecrets w (filename l2) (Secrets l2)
               in case res of
                    Inl err \<Rightarrow> (Inl (SaveAfterDeletion err), l2, w2)
                  | Inr _ \<Rightarrow> (Inr (), l2, w2)))"

definition LookupKeys ::
  "world \<Rightarrow> LocalStore \<Rightarrow> string \<Rightarrow> (error + string list) \<times> LocalStore" where
  "LookupKeys w l keyPath =
     (case reloadIfChanged w l of
        Inl err \<Rightarrow> (Inl err, l)
      | Inr l1 \<Rightarrow>
          (case Secrets l1 of
             None \<Rightarrow> (Inl NoSecretsFound, l1)
           | Some m \<Rightarrow> (Inr (map fst m), l1)))"

text \<open>
  A successful \<open>SaveSecrets\<close> at time \<open>t\<close> leaves the store's file holding the store's
  mapping, stamped \<open>t\<close>.
\<close>

definition persisted :: "world \<Rightarrow> LocalStore \<Rightarrow> nat \<Rightarrow> bool" where
  "persisted w l t \<longleftrightarrow>
     files w (filename l) = Some \<lparr>content = encode (Secrets l), modTime = t\<rparr>"

text \<open>The file of the store can be inspected and opened for reading.\<close>

definition accessible :: "world \<Rightarrow> bool" where
  "accessible w \<longleftrightarrow> StatFails \<notin> faults w \<and> OpenFails \<notin> faults w"

section \<open>The remote secret adapter\<close>

text \<open>
  The source file of the adapter is not among the sources: only its tests and the test
  double of its client are. The adapter is therefore modelled from the specification
  (sections 3, 4.3, 6 and 7); the test double is translated from its source.
\<close>

subsection \<open>The Client Capability\<close>

text \<open>
  Modelled from the spec: the mapping a client call sends or returns, missing with the
  client library. Field names are mapped to values.
\<close>

type_synonym payload = "(string \<times> string) list"

text \<open>
  Modelled from the spec: the secret payload a client call returns, missing with the
  client library. A successful list response holds a \<open>keys\<close> field, an ordered sequence
  of names, and a login response holds the fresh token.
\<close>

record secret =
  secret_data :: payload
  secret_keys :: "string list"
  client_token :: string

text \<open>
  Modelled from the spec: the error of a client call, missing with the client library.
  An error of the permission-denied class (the tests of the sources use one that reads
  "Code: 403") is told apart from every other error; both carry their message.
\<close>

datatype client_error = PermissionDenied string | OtherFailure string

text \<open>
  Modelled from the spec: the interface of the Client Capability, whose declaration is
  missing with the adapter. It has the four operations \<open>Read\<close>, \<open>Write\<close>, \<open>Delete\<close>
  and \<open>List\<close>, each returning a payload or an error, and \<open>SetToken\<close>; \<open>'c\<close> is the
  state of the client, which each call may change.
\<close>

record 'c VaultApi =
  api_Read :: "string \<Rightarrow> 'c \<Rightarrow> (client_error + secret) \<times> 'c"
  api_Write :: "string \<Rightarrow> payload \<Rightarrow> 'c \<Rightarrow> (client_error + secret) \<times> 'c"
  api_Delete :: "string \<Rightarrow> 'c \<Rightarrow> (client_error + secret) \<times> 'c"
  api_List :: "string \<Rightarrow> 'c \<Rightarrow> (client_error + secret) \<times> 'c"
  api_SetToken :: "string \<Rightarrow> 'c \<Rightarrow> 'c"

text \<open>
  Modelled from the spec: one underlying call of the adapter to the Client Capability,
  missing with the adapter.
\<close>

datatype call =
    ClientRead string | ClientWrite string payload | ClientDelete string | ClientList string

text \<open>
  Modelled from the spec: making an underlying call, missing with the adapter; the call
  goes to the operation of the interface it names.
\<close>

definition issue :: "'c VaultApi \<Rightarrow> call \<Rightarrow> 'c \<Rightarrow> (client_error + secret) \<times> 'c" where
  "issue api x c =
     (case x of
        ClientRead path \<Rightarrow> api_Read api path c
      | ClientWrite path data \<Rightarrow> api_Write api path data c
      | ClientDelete path \<Rightarrow> api_Delete api path c
      | ClientList path \<Rightarrow> api_List api path c)"

subsection \<open>The test double of the client\<close>

text \<open>
  \<open>MockVaultApi\<close> of the sources holds, for each kind of call, a script of outputs and
  a counter. A call beyond the end of the script fails; any other call records its input
  in the script entry, advances the counter and returns the scripted output. An output
  with a non-nil \<open>Err\<close> is \<open>Inl\<close>. \<open>SetToken\<close> does nothing.
\<close>

record 'i MockV =
  Input :: 'i
  Output :: "client_error + secret"

record MockVaultApi =
  ReadNum :: nat
  ReadData :: "string MockV list"
  WriteNum :: nat
  WriteData :: "(string \<times> payload) MockV list"
  DeleteNum :: nat
  DeleteData :: "string MockV list"
  ListNum :: nat
  ListData :: "string MockV list"

definition Mock_Read :: "string \<Rightarrow> MockVaultApi \<Rightarrow> (client_error + secret) \<times> MockVaultApi" where
  "Mock_Read path v =
     (let i = ReadNum v in
      if length (ReadData v) \<le> i
      then (Inl (OtherFailure ''Unexpected call to MockVRead''), v)
      else (Output (ReadData v ! i),
            v\<lparr>ReadNum := i + 1,
              ReadData := (ReadData v)[i := (ReadData v ! i)\<lparr>Input := path\<rparr>]\<rparr>))"

definition Mock_Write ::
  "string \<Rightarrow> payload \<Rightarrow> MockVaultApi \<Rightarrow> (client_error + secret) \<times> MockVaultApi" where
  "Mock_Write path data v =
     (let i = WriteNum v in
      if length (WriteData v) \<le> i
      then (Inl (OtherFailure ''Unexpected call to MockVWrite''), v)
      else (Output (WriteData v ! i),
            v\<lparr>WriteNum := i + 1,
              WriteData := (WriteData v)[i := (WriteData v ! i)\<lparr>Input := (path, data)\<rparr>]\<rparr>))"

definition Mock_Delete :: "string \<Rightarrow> MockVaultApi \<Rightarrow> (client_error + secret) \<times> MockVaultApi" where
  "Mock_Delete path v =
     (let i = DeleteNum v in
      if length (DeleteData v) \<le> i
      then (Inl (OtherFailure ''Unexpected call to MockVDelete''), v)
      else (Output (DeleteData v ! i),
            v\<lparr>DeleteNum := i + 1,
              DeleteData := (DeleteData v)[i := (DeleteData v ! i)\<lparr>Input := path\<rparr>]\<rparr>))"

definition Mock_List :: "string \<Rightarrow> MockVaultApi \<Rightarrow> (client_error + secret) \<times> MockVaultApi" where
  "Mock_List path v =
     (let i = ListNum v in
      if length (ListData v) \<le> i
      then (Inl (OtherFailure ''Unexpected call to MockVList''), v)
      else (Output (ListData v ! i),
            v\<lparr>ListNum := i + 1,
              ListData := (ListData v)[i := (ListData v ! i)\<lparr>Input := path\<rparr>]\<rparr>))"

definition Mock_SetToken :: "string \<Rightarrow> MockVaultApi \<Rightarrow> MockVaultApi" where
  "Mock_SetToken t v = v"

definition NewMockVaultApi :: "MockVaultApi VaultApi \<times> MockVaultApi" where
  "NewMockVaultApi =
     (\<lparr>api_Read = Mock_Read, api_Write = Mock_Write, api_Delete = Mock_Delete,
       api_List = Mock_List, api_SetToken = Mock_SetToken\<rparr>,
      \<lparr>ReadNum = 0, ReadData = [], WriteNum = 0, WriteData = [],
       DeleteNum = 0, DeleteData = [], ListNum = 0, ListData = []\<rparr>)"

subsection \<open>The adapter\<close>

text \<open>
  Modelled from the spec: AuthConfig, whose declaration is missing with the adapter: the
  path of the credential file, the path of the role file and the login path. The field
  names are those the tests of the sources use.
\<close>

record auth_config =
  JWTFile :: string
  RoleFile :: string
  Path :: string

text \<open>
  Modelled from the spec: the configuration of the adapter, whose declaration is missing
  with the adapter: BasePath, RetryBudget (the field \<open>VaultRetry\<close> of the tests) and
  AuthConfig. The client is passed along separately.
\<close>

record VaultAdapter =
  BasePath :: string
  VaultRetry :: nat
  AuthConfig :: auth_config

text \<open>
  Modelled from the spec: the record of the underlying calls that one public operation
  makes, in order, missing with the adapter. An entry says whether the call was an
  attempt of the original operation or a login exchange, and which error it ended with
  (\<open>None\<close> for success).
\<close>

datatype event = Attempt call "client_error option" | Login call "client_error option"

text \<open>
  Modelled from the spec: the error kinds of the adapter, missing with the adapter.
  BackendUnavailable is a client error unrelated to authentication, AuthenticationFailure
  a failed login exchange or an exhausted retry budget; each carries the last error seen.
\<close>

datatype adapter_error = BackendUnavailable client_error | AuthenticationFailure client_error

text \<open>
  Modelled from the spec: the two states of the authenticate-and-retry state machine,
  missing with the adapter. \<open>Reauthenticating\<close> carries the last error seen.
\<close>

datatype phase = Authenticated | Reauthenticating client_error

text \<open>
  Modelled from the spec: the request of the login exchange, missing with the adapter: a
  write to the login path whose payload holds the contents of the credential file and of
  the role file. \<open>read_file\<close> gives the contents of a file.
\<close>

definition login_request :: "(string \<Rightarrow> string) \<Rightarrow> VaultAdapter \<Rightarrow> call" where
  "login_request read_file ss =
     ClientWrite (Path (AuthConfig ss))
       [(''jwt'', read_file (JWTFile (AuthConfig ss))),
        (''role'', read_file (RoleFile (AuthConfig ss)))]"

text \<open>
  Modelled from the spec: the login exchange, missing with the adapter. It submits the
  login request and, when that succeeds, installs the returned token on the client.
\<close>

definition login_exchange ::
  "'c VaultApi \<Rightarrow> (string \<Rightarrow> string) \<Rightarrow> VaultAdapter \<Rightarrow> 'c \<Rightarrow> (client_error + unit) \<times> 'c" where
  "login_exchange api read_file ss c =
     (case issue api (login_request read_file ss) c of
        (Inl err, c1) \<Rightarrow> (Inl err, c1)
      | (Inr s, c1) \<Rightarrow> (Inr (), api_SetToken api (client_token s) c1))"

text \<open>
  Modelled from the spec: putting an underlying call in front of the record of the calls
  that follow it, missing with the adapter.
\<close>

definition emit ::
  "event \<Rightarrow> 'r \<times> 'c \<times> event list \<Rightarrow> 'r \<times> 'c \<times> event list" where
  "emit ev out = (case out of (r, c, tr) \<Rightarrow> (r, c, ev # tr))"

text \<open>
  Modelled from the spec: the authenticate-and-retry state machine, missing with the
  adapter. In \<open>Authenticated\<close> the original operation is attempted: a success, or an
  error outside the permission-denied class, ends the call; a permission-denied error
  moves to \<open>Reauthenticating\<close>. There, an exhausted budget surfaces the last error;
  otherwise one authentication attempt of the budget is spent on a login exchange, after
  which the original operation is retried if the login succeeded, and the machine stays
  in \<open>Reauthenticating\<close> if it failed. The result comes with the client as the call
  leaves it and with the record of the underlying calls.
\<close>

function auth_retry ::
  "'c VaultApi \<Rightarrow> (string \<Rightarrow> string) \<Rightarrow> VaultAdapter \<Rightarrow> call \<Rightarrow> phase \<Rightarrow> nat \<Rightarrow> 'c
     \<Rightarrow> (adapter_error + secret) \<times> 'c \<times> event list" where
  "auth_retry api rf ss x Authenticated budget c =
     (case issue api x c of
        (Inr s, c1) \<Rightarrow> (Inr s, c1, [Attempt x None])
      | (Inl (PermissionDenied msg), c1) \<Rightarrow>
          emit (Attempt x (Some (PermissionDenied msg)))
            (auth_retry api rf ss x (Reauthenticating (PermissionDenied msg)) budget c1)
      | (Inl (OtherFailure msg), c1) \<Rightarrow>
          (Inl (BackendUnavailable (OtherFailure msg)), c1,
           [Attempt x (Some (OtherFailure msg))]))"
| "auth_retry api rf ss x (Reauthenticating last_error) 0 c =
     (Inl (AuthenticationFailure last_error), c, [])"
| "auth_retry api rf ss x (Reauthenticating last_error) (Suc budget) c =
     (case login_exchange api rf ss c of
        (Inl err, c1) \<Rightarrow>
          emit (Login (login_request rf ss) (Some err))
            (auth_retry api rf ss x (Reauthenticating err) budget c1)
      | (Inr _, c1) \<Rightarrow>
          emit (Login (login_request rf ss) None)
            (auth_retry api rf ss x Authenticated budget c1))"
  by pat_completeness auto
termination
  by (relation "measure (\<lambda>(api, rf, ss, x, ph, budget, c).
                  2 * budget + (case ph of Authenticated \<Rightarrow> 1 | Reauthenticating _ \<Rightarrow> 0))")
     auto

text \<open>
  Modelled from the spec: the four public operations of the adapter, missing with the
  adapter: Store, Lookup, Delete and LookupKeys. A stored value is taken as already
  normalised to a mapping.
\<close>

datatype request =
    StoreReq string payload | LookupReq string | DeleteReq string | LookupKeysReq string

text \<open>
  Modelled from the spec: the path policy, missing with the adapter. The path of a secret
  joins BasePath and the key with a slash; \<open>LookupKeys\<close> is a listing request under the
  base path.
\<close>

definition underlying :: "VaultAdapter \<Rightarrow> request \<Rightarrow> call" where
  "underlying ss req =
     (case req of
        StoreReq key data \<Rightarrow> ClientWrite (BasePath ss @ ''/'' @ key) data
      | LookupReq key \<Rightarrow> ClientRead (BasePath ss @ ''/'' @ key)
      | DeleteReq key \<Rightarrow> ClientDelete (BasePath ss @ ''/'' @ key)
      | LookupKeysReq keyPath \<Rightarrow> ClientList (BasePath ss @ ''/'' @ keyPath))"

text \<open>
  Modelled from the spec: running a public operation, missing with the adapter. Every
  operation runs its underlying call under the state machine, which starts in
  \<open>Authenticated\<close> with the whole retry budget.
\<close>

definition perform ::
  "'c VaultApi \<Rightarrow> (string \<Rightarrow> string) \<Rightarrow> VaultAdapter \<Rightarrow> request \<Rightarrow> 'c
     \<Rightarrow> (adapter_error + secret) \<times> 'c \<times> event list" where
  "perform api rf ss req c =
     auth_retry api rf ss (underlying ss req) Authenticated (VaultRetry ss) c"

text \<open>
  Modelled from the spec: the number of underlying attempts of the original operation in
  a record of calls, for the bound the specification puts on it.
\<close>

definition attempts :: "event list \<Rightarrow> nat" where
  "attempts tr = length (filter (\<lambda>ev. case ev of Attempt _ _ \<Rightarrow> True | Login _ _ \<Rightarrow> False) tr)"

text \<open>
  Modelled from the spec: the error an underlying call ended with, for the last observed
  error the specification speaks of.
\<close>

definition outcome :: "event \<Rightarrow> client_error option" where
  "outcome ev = (case ev of Attempt _ r \<Rightarrow> r | Login _ r \<Rightarrow> r)"

section \<open>Example values\<close>

text \<open>
  The adapter that the tests of the sources configure, and the scripts of two cases of
  \<open>TestVaultAdapterLookup\<close>: a lookup that is denied, logs in and then succeeds, and a
  lookup that is denied and whose login fails. \<open>refusing_api\<close> is a client that denies
  every operation and accepts every login; its state counts the calls.
\<close>

definition test_adapter :: VaultAdapter where
  "test_adapter =
     \<lparr>BasePath = ''secret/hms-cred'', VaultRetry = 1,
      AuthConfig = \<lparr>JWTFile = ''token'', RoleFile = ''namespace'',
                    Path = ''auth/kubernetes/login''\<rparr>\<rparr>"

definition empty_secret :: secret where
  "empty_secret = \<lparr>secret_data = [], secret_keys = [], client_token = []\<rparr>"

definition creds_secret :: secret where
  "creds_secret =
     \<lparr>secret_data = [(''Xname'', ''x0c0s1b0''), (''URL'', ''10.4.0.21/redfish/v1/UpdateService''),
                     (''Username'', ''test1''), (''Password'', ''123'')],
      secret_keys = [], client_token = []\<rparr>"

definition lookup_retry_mock :: MockVaultApi where
  "lookup_retry_mock =
     (snd NewMockVaultApi)
       \<lparr>ReadData := [\<lparr>Input = [], Output = Inl (PermissionDenied ''Code: 403'')\<rparr>,
                    \<lparr>Input = [], Output = Inr creds_secret\<rparr>],
        WriteData := [\<lparr>Input = ([], []), Output = Inr empty_secret\<rparr>]\<rparr>"

definition lookup_login_fails_mock :: MockVaultApi where
  "lookup_login_fails_mock =
     (snd NewMockVaultApi)
       \<lparr>ReadData := [\<lparr>Input = [], Output = Inl (PermissionDenied ''Code: 403'')\<rparr>],
        WriteData := [\<lparr>Input = ([], []), Output = Inl (OtherFailure ''Token Failed'')\<rparr>]\<rparr>"

definition credential_files :: "string \<Rightarrow> string" where
  "credential_files path = (if path = ''token'' then ''jwt'' else ''role'')"

definition refusing_api :: "nat VaultApi" where
  "refusing_api =
     \<lparr>api_Read = (\<lambda>p n. (Inl (PermissionDenied ''Code: 403''), Suc n)),
      api_Write = (\<lambda>p d n.
         if p = ''auth/kubernetes/login'' then (Inr empty_secret, Suc n)
         else (Inl (PermissionDenied ''Code: 403''), Suc n)),
      api_Delete = (\<lambda>p n. (Inl (PermissionDenied ''Code: 403''), Suc n)),
      api_List = (\<lambda>p n. (Inl (PermissionDenied ''Code: 403''), Suc n)),
      api_SetToken = (\<lambda>t n. n)\<rparr>"

text \<open>
  Helpers for running the model on concrete inputs: values are strings, serialisation is
  the identity and the cipher prefixes the plaintext with the derived key.
\<close>

definition toy_helpers :: "(string, string, string) helpers" where
  "toy_helpers =
     \<lparr>mapstructure_Decode = Some,
      json_Marshal = Some,
      json_Unmarshal = (\<lambda>s _. Some s),
      deriveAESKey = (\<lambda>mk k. mk @ k),
      encryptAESGCM = (\<lambda>n k p. Some (k @ p)),
      decryptAESGCM = (\<lambda>k c. if take (length k) c = k then Some (drop (length k) c)
                               else None)\<rparr>"

definition ex_world :: "document \<Rightarrow> nat \<Rightarrow> fault set \<Rightarrow> world" where
  "ex_world doc t fs =
     \<lparr>files = [''secrets.json'' \<mapsto> \<lparr>content = doc, modTime = t\<rparr>],
      now = 7, faults = fs, entropy = 0\<rparr>"

definition no_file_world :: world where
  "no_file_world = \<lparr>files = Map.empty, now = 7, faults = {}, entropy = 0\<rparr>"

definition ex_store :: "secrets \<Rightarrow> LocalStore" where
  "ex_store m =
     \<lparr>masterKey = ''mk'', filename = ''secrets.json'', Secrets = Some m, lastModTime = 1\<rparr>"

section \<open>Properties of the local store\<close>

subsection \<open>Auxiliary facts\<close>

lemmas model_defs =
  Store_def Lookup_def Delete_def LookupKeys_def reloadIfChanged_def getModTime_def
  loadSecrets_def SaveSecrets_def encode_def entry_def persisted_def accessible_def
  toy_helpers_def ex_world_def no_file_world_def ex_store_def Let_def

lemma reloadIfChanged_idem:
  "reloadIfChanged w l = Inr l1 \<Longrightarrow> reloadIfChanged w l1 = Inr l1"
  by (auto simp: reloadIfChanged_def getModTime_def split: sum.splits if_splits option.splits)

lemma reloadIfChanged_frame:
  "reloadIfChanged w l = Inr l1 \<Longrightarrow> filename l1 = filename l \<and> masterKey l1 = masterKey l"
  by (auto simp: reloadIfChanged_def split: sum.splits if_splits)








lemma entry_update:
  "entry (Some (AList.update k c m)) k' = (if k' = k then Some c else entry (Some m) k')"
  by (simp add: entry_def update_conv')

lemma entry_delete:
  "entry (map_option (AList.delete k) s) k' = (if k' = k then None else entry s k')"
  by (cases s) (simp_all add: entry_def delete_conv')

lemma Store_failed_persist:
  assumes "Store h w l key val = (Inl e, l2, w2)"
    and "e \<in> {OpenFileError, EncodeError, SyncError}"
    and "reloadIfChanged w l = Inr l1"
  shows "\<exists>v data jsonData c m.
           val = Some v \<and> mapstructure_Decode h v = Some data \<and>
           json_Marshal h data = Some jsonData \<and>
           encryptAESGCM h (entropy w) (deriveAESKey h (masterKey l1) key) jsonData = Some c \<and>
           Secrets l1 = Some m \<and> l2 = l1\<lparr>Secrets := Some (AList.update key c m)\<rparr> \<and>
           (e = OpenFileError \<longrightarrow> w2 = w)"
  using assms
  by (auto simp: Store_def SaveSecrets_def Let_def split: if_splits option.splits prod.splits)

lemma Delete_failed_persist:
  assumes "Delete w l key = (Inl (SaveAfterDeletion e), l2, w2)"
    and "reloadIfChanged w l = Inr l1"
  shows "entry (Secrets l1) key \<noteq> None \<and>
         l2 = l1\<lparr>Secrets := map_option (AList.delete key) (Secrets l1)\<rparr>"
  using assms
  by (auto simp: Delete_def Let_def split: if_splits option.splits prod.splits sum.splits)

subsection \<open>Failed persistence\<close>

text \<open>
  C1 as stated fails: when the file cannot be opened for writing, \<open>Store\<close> returns the
  error and yet a \<open>Lookup\<close> of the key on the same store, not found before the call,
  succeeds after it; likewise a failed \<open>Delete\<close> removes the key from what
  \<open>LookupKeys\<close> returns.
\<close>

theorem failed_persist_counterexample:
  "Lookup toy_helpers (ex_world (JObject []) 1 {OpenFileFails}) (ex_store []) ''k'' ''out''
     = (Inl (NoSecretFound ''k''), ex_store []) \<and>
   Store toy_helpers (ex_world (JObject []) 1 {OpenFileFails}) (ex_store []) ''k'' (Some ''v'')
     = (Inl OpenFileError, ex_store [(''k'', ''mkkv'')],
        ex_world (JObject []) 1 {OpenFileFails}) \<and>
   Lookup toy_helpers (ex_world (JObject []) 1 {OpenFileFails}) (ex_store [(''k'', ''mkkv'')])
       ''k'' ''out''
     = (Inr ''v'', ex_store [(''k'', ''mkkv'')]) \<and>
   LookupKeys (ex_world (JObject [(''k'', ''mkkv'')]) 1 {OpenFileFails})
       (ex_store [(''k'', ''mkkv'')]) []
     = (Inr [''k''], ex_store [(''k'', ''mkkv'')]) \<and>
   Delete (ex_world (JObject [(''k'', ''mkkv'')]) 1 {OpenFileFails})
       (ex_store [(''k'', ''mkkv'')]) ''k''
     = (Inl (SaveAfterDeletion OpenFileError), ex_store [],
        ex_world (JObject [(''k'', ''mkkv'')]) 1 {OpenFileFails}) \<and>
   LookupKeys (ex_world (JObject [(''k'', ''mkkv'')]) 1 {OpenFileFails}) (ex_store []) []
     = (Inr [], ex_store [])"
  by (simp add: model_defs)

text \<open>
  C1, as amended. When \<open>Store\<close> or \<open>Delete\<close> fails because the mapping could not be
  persisted, the error is returned and the change to the mapping in memory stays: after
  the failed \<open>Store\<close> the mapping holds the new ciphertext under the key, after the
  failed \<open>Delete\<close> it holds no entry for the key where it held one before; the other
  entries and the recorded modification time are as the reconciliation left them. When
  \<open>Store\<close> failed at opening the file, the file is untouched.
\<close>

theorem failed_persist_keeps_change:
  "(Store h w l key val = (Inl e, l2, w2) \<and> e \<in> {OpenFileError, EncodeError, SyncError} \<and>
    reloadIfChanged w l = Inr l1 \<longrightarrow>
      (\<exists>v data jsonData c.
         val = Some v \<and> mapstructure_Decode h v = Some data \<and>
         json_Marshal h data = Some jsonData \<and>
         encryptAESGCM h (entropy w) (deriveAESKey h (masterKey l1) key) jsonData = Some c \<and>
         entry (Secrets l2) key = Some c) \<and>
      (\<forall>k. k \<noteq> key \<longrightarrow> entry (Secrets l2) k = entry (Secrets l1) k) \<and>
      lastModTime l2 = lastModTime l1 \<and>
      (e = OpenFileError \<longrightarrow> w2 = w)) \<and>
   (Delete w l key = (Inl (SaveAfterDeletion e), l2, w2) \<and> reloadIfChanged w l = Inr l1 \<longrightarrow>
      entry (Secrets l1) key \<noteq> None \<and> entry (Secrets l2) key = None \<and>
      (\<forall>k. k \<noteq> key \<longrightarrow> entry (Secrets l2) k = entry (Secrets l1) k) \<and>
      lastModTime l2 = lastModTime l1)"
proof (intro conjI impI)
  assume a: "Store h w l key val = (Inl e, l2, w2) \<and>
             e \<in> {OpenFileError, EncodeError, SyncError} \<and> reloadIfChanged w l = Inr l1"
  then obtain v data jsonData c m where
    v: "val = Some v" "mapstructure_Decode h v = Some data" "json_Marshal h data = Some jsonData"
       "encryptAESGCM h (entropy w) (deriveAESKey h (masterKey l1) key) jsonData = Some c" and
    s: "Secrets l1 = Some m" "l2 = l1\<lparr>Secrets := Some (AList.update key c m)\<rparr>" and
    u: "e = OpenFileError \<longrightarrow> w2 = w"
    using Store_failed_persist [of h w l key val e l2 w2 l1] by blast
  have "entry (Secrets l2) key = Some c"
    using s by (simp add: entry_update)
  with v show "\<exists>v data jsonData c.
         val = Some v \<and> mapstructure_Decode h v = Some data \<and>
         json_Marshal h data = Some jsonData \<and>
         encryptAESGCM h (entropy w) (deriveAESKey h (masterKey l1) key) jsonData = Some c \<and>
         entry (Secrets l2) key = Some c"
    by blast
  show "\<forall>k. k \<noteq> key \<longrightarrow> entry (Secrets l2) k = entry (Secrets l1) k"
    using s by (simp add: entry_update)
  show "lastModTime l2 = lastModTime l1"
    using s by simp
  show "w2 = w" if "e = OpenFileError"
    using u that by blast
next
  assume a: "Delete w l key = (Inl (SaveAfterDeletion e), l2, w2) \<and> reloadIfChanged w l = Inr l1"
  then have s: "entry (Secrets l1) key \<noteq> None"
               "l2 = l1\<lparr>Secrets := map_option (AList.delete key) (Secrets l1)\<rparr>"
    using Delete_failed_persist by blast+
  show "entry (Secrets l1) key \<noteq> None" by (rule s(1))
  show "entry (Secrets l2) key = None"
    using s by (simp add: entry_delete)
  show "\<forall>k. k \<noteq> key \<longrightarrow> entry (Secrets l2) k = entry (Secrets l1) k"
    using s by (simp add: entry_delete)
  show "lastModTime l2 = lastModTime l1"
    using s by simp
qed

theorem failed_persist_keeps_change_witness:
  "Store toy_helpers (ex_world (JObject []) 1 {OpenFileFails}) (ex_store []) ''k'' (Some ''v'')
     = (Inl OpenFileError, ex_store [(''k'', ''mkkv'')],
        ex_world (JObject []) 1 {OpenFileFails}) \<and>
   reloadIfChanged (ex_world (JObject []) 1 {OpenFileFails}) (ex_store []) = Inr (ex_store []) \<and>
   entry (Secrets (ex_store [(''k'', ''mkkv'')])) ''k'' = Some ''mkkv'' \<and>
   Delete (ex_world (JObject [(''k'', ''mkkv'')]) 1 {SyncFails})
       (ex_store [(''k'', ''mkkv'')]) ''k''
     = (Inl (SaveAfterDeletion SyncError), ex_store [],
        ex_world (JObject []) 7 {SyncFails}) \<and>
   reloadIfChanged (ex_world (JObject [(''k'', ''mkkv'')]) 1 {SyncFails})
       (ex_store [(''k'', ''mkkv'')]) = Inr (ex_store [(''k'', ''mkkv'')]) \<and>
   entry (Secrets (ex_store [(''k'', ''mkkv'')])) ''k'' \<noteq> None \<and>
   entry (Secrets (ex_store [])) ''k'' = None"
  using failed_persist_keeps_change
          [of toy_helpers "ex_world (JObject []) 1 {OpenFileFails}" "ex_store []" "''k''"
              "Some ''v''" OpenFileError "ex_store [(''k'', ''mkkv'')]"
              "ex_world (JObject []) 1 {OpenFileFails}" "ex_store []"]
        failed_persist_keeps_change
          [of toy_helpers "ex_world (JObject [(''k'', ''mkkv'')]) 1 {SyncFails}"
              "ex_store [(''k'', ''mkkv'')]" "''k''" None SyncError "ex_store []"
              "ex_world (JObject []) 7 {SyncFails}" "ex_store [(''k'', ''mkkv'')]"]
  by (simp add: model_defs)

subsection \<open>Round trip\<close>



subsection \<open>Freshness check\<close>

text \<open>
  C3. Every operation of the local store first compares the recorded modification time
  with the file's. When reading the modification time fails the operation returns that
  error, and so it does when the file is newer and loading it fails. When the file is
  newer and loads, the whole mapping is replaced by the loaded one and the timestamp by
  the file's before the operation proceeds: the operation behaves as it does on the store
  so updated.
\<close>

theorem freshness_check_first:
  "(getModTime w (filename l) = Inl err \<longrightarrow>
      Store h w l key val = (Inl err, l, w) \<and> Lookup h w l key output = (Inl err, l) \<and>
      Delete w l key = (Inl err, l, w) \<and> LookupKeys w l keyPath = (Inl err, l)) \<and>
   (getModTime w (filename l) = Inr t \<and> lastModTime l < t \<and>
    loadSecrets w (filename l) = Inl err \<longrightarrow>
      Store h w l key val = (Inl err, l, w) \<and> Lookup h w l key output = (Inl err, l) \<and>
      Delete w l key = (Inl err, l, w) \<and> LookupKeys w l keyPath = (Inl err, l)) \<and>
   (getModTime w (filename l) = Inr t \<and> lastModTime l < t \<and>
    loadSecrets w (filename l) = Inr fresh \<longrightarrow>
      reloadIfChanged w l = Inr (l\<lparr>Secrets := fresh, lastModTime := t\<rparr>) \<and>
      Store h w l key val = Store h w (l\<lparr>Secrets := fresh, lastModTime := t\<rparr>) key val \<and>
      Lookup h w l key output = Lookup h w (l\<lparr>Secrets := fresh, lastModTime := t\<rparr>) key output \<and>
      Delete w l key = Delete w (l\<lparr>Secrets := fresh, lastModTime := t\<rparr>) key \<and>
      LookupKeys w l keyPath = LookupKeys w (l\<lparr>Secrets := fresh, lastModTime := t\<rparr>) keyPath)"
  by (auto simp: Store_def Lookup_def Delete_def LookupKeys_def reloadIfChanged_def)

theorem freshness_check_first_witness:
  "getModTime no_file_world (filename (ex_store [])) = Inl StatError \<and>
   LookupKeys no_file_world (ex_store []) [] = (Inl StatError, ex_store []) \<and>
   getModTime (ex_world JInvalid 5 {}) (filename (ex_store [])) = Inr 5 \<and>
   lastModTime (ex_store []) < 5 \<and>
   loadSecrets (ex_world JInvalid 5 {}) (filename (ex_store [])) = Inl DecodeError \<and>
   LookupKeys (ex_world JInvalid 5 {}) (ex_store []) [] = (Inl DecodeError, ex_store []) \<and>
   getModTime (ex_world (JObject [(''a'', ''mkav'')]) 5 {}) (filename (ex_store [])) = Inr 5 \<and>
   loadSecrets (ex_world (JObject [(''a'', ''mkav'')]) 5 {}) (filename (ex_store []))
     = Inr (Some [(''a'', ''mkav'')]) \<and>
   LookupKeys (ex_world (JObject [(''a'', ''mkav'')]) 5 {}) (ex_store []) []
     = (Inr [''a''], (ex_store [(''a'', ''mkav'')])\<lparr>lastModTime := 5\<rparr>) \<and>
   Lookup toy_helpers (ex_world (JObject [(''a'', ''mkav'')]) 5 {}) (ex_store []) ''a'' ''out''
     = (Inr ''v'', (ex_store [(''a'', ''mkav'')])\<lparr>lastModTime := 5\<rparr>)"
  using freshness_check_first
          [of no_file_world "ex_store []" StatError toy_helpers "''a''" "Some ''v''" "''out''"
              "[]" 5 "Some []"]
        freshness_check_first
          [of "ex_world JInvalid 5 {}" "ex_store []" DecodeError toy_helpers "''a''"
              "Some ''v''" "''out''" "[]" 5 "Some []"]
        freshness_check_first
          [of "ex_world (JObject [(''a'', ''mkav'')]) 5 {}" "ex_store []" DecodeError
              toy_helpers "''a''" "Some ''v''" "''out''" "[]" 5 "Some [(''a'', ''mkav'')]"]
  by (simp add: model_defs)

text \<open>
  C9. In \<open>Store\<close>, \<open>Lookup\<close> and \<open>Delete\<close> the freshness reconciliation runs before
  the arguments are looked at: when reading the modification time fails, or the file is
  newer and reloading it fails, the call returns that file error and changes nothing,
  whatever the key and the value are, and so also for an empty key and a nil value.
\<close>

theorem reconcile_error_first:
  assumes "getModTime w (filename l) = Inl err \<or>
           (\<exists>t. getModTime w (filename l) = Inr t \<and> lastModTime l < t \<and>
                loadSecrets w (filename l) = Inl err)"
  shows "Store h w l key val = (Inl err, l, w) \<and>
         Lookup h w l key output = (Inl err, l) \<and>
         Delete w l key = (Inl err, l, w) \<and>
         Store h w l [] None = (Inl err, l, w) \<and>
         Lookup h w l [] output = (Inl err, l) \<and>
         Delete w l [] = (Inl err, l, w)"
proof -
  from assms have "reloadIfChanged w l = Inl err"
    by (auto simp: reloadIfChanged_def)
  then show ?thesis
    by (simp add: Store_def Lookup_def Delete_def)
qed

theorem reconcile_error_first_witness:
  "getModTime no_file_world (filename (ex_store [])) = Inl StatError \<and>
   Store toy_helpers no_file_world (ex_store []) [] None = (Inl StatError, ex_store [], no_file_world) \<and>
   Lookup toy_helpers no_file_world (ex_store []) [] ''out'' = (Inl StatError, ex_store []) \<and>
   Delete no_file_world (ex_store []) [] = (Inl StatError, ex_store [], no_file_world)"
proof -
  have h: "getModTime no_file_world (filename (ex_store [])) = Inl StatError"
    by (simp add: getModTime_def no_file_world_def ex_store_def)
  show ?thesis
    using h reconcile_error_first [of no_file_world "ex_store []" StatError toy_helpers "[]" None "''out''"]
    by simp
qed



subsection \<open>Empty and absent keys\<close>

text \<open>
  C6 as stated fails: over a file that does not decode, the three operations called with
  an empty key return the decoding error, not the invalid-argument error.
\<close>

theorem empty_key_counterexample:
  "Store toy_helpers (ex_world JInvalid 5 {}) (ex_store []) [] (Some ''v'')
     = (Inl DecodeError, ex_store [], ex_world JInvalid 5 {}) \<and>
   Lookup toy_helpers (ex_world JInvalid 5 {}) (ex_store []) [] ''out''
     = (Inl DecodeError, ex_store []) \<and>
   Delete (ex_world JInvalid 5 {}) (ex_store []) []
     = (Inl DecodeError, ex_store [], ex_world JInvalid 5 {})"
  by (simp add: model_defs)

text \<open>
  C6, as amended. \<open>Store\<close>, \<open>Lookup\<close> and \<open>Delete\<close> with an empty key fail for every
  store, every world and every value or output; the error is the invalid-argument error
  "key cannot be empty" whenever the freshness reconciliation succeeds (otherwise it is
  the file error of the reconciliation).
\<close>

theorem empty_key_rejected:
  "(\<exists>e. fst (Store h w l [] val) = Inl e) \<and>
   (\<exists>e. fst (Lookup h w l [] output) = Inl e) \<and>
   (\<exists>e. fst (Delete w l []) = Inl e) \<and>
   (reloadIfChanged w l = Inr l1 \<longrightarrow>
      Store h w l [] val = (Inl KeyEmpty, l1, w) \<and>
      Lookup h w l [] output = (Inl KeyEmpty, l1) \<and>
      Delete w l [] = (Inl KeyEmpty, l1, w)) \<and>
   (reloadIfChanged w l = Inl err \<longrightarrow>
      Store h w l [] val = (Inl err, l, w) \<and>
      Lookup h w l [] output = (Inl err, l) \<and>
      Delete w l [] = (Inl err, l, w))"
  by (auto simp: Store_def Lookup_def Delete_def split: sum.splits)

theorem empty_key_rejected_witness:
  "reloadIfChanged no_file_world (ex_store []) = Inl StatError \<and>
   Store toy_helpers no_file_world (ex_store []) [] (Some ''v'')
     = (Inl StatError, ex_store [], no_file_world) \<and>
   reloadIfChanged (ex_world (JObject []) 1 {}) (ex_store []) = Inr (ex_store []) \<and>
   Store toy_helpers (ex_world (JObject []) 1 {}) (ex_store []) [] (Some ''v'')
     = (Inl KeyEmpty, ex_store [], ex_world (JObject []) 1 {}) \<and>
   Lookup toy_helpers (ex_world (JObject []) 1 {}) (ex_store []) [] ''out''
     = (Inl KeyEmpty, ex_store []) \<and>
   Delete (ex_world (JObject []) 1 {}) (ex_store []) []
     = (Inl KeyEmpty, ex_store [], ex_world (JObject []) 1 {})"
  using empty_key_rejected
          [of toy_helpers "ex_world (JObject []) 1 {}" "ex_store []" "Some ''v''" "''out''"
              "ex_store []" StatError]
        empty_key_rejected
          [of toy_helpers no_file_world "ex_store []" "Some ''v''" "''out''"
              "ex_store []" StatError]
  by (simp add: model_defs)



subsection \<open>Enumeration\<close>




section \<open>Properties of the remote secret adapter\<close>

lemmas adapter_defs =
  perform_def underlying_def issue_def login_request_def login_exchange_def
  Mock_Read_def Mock_Write_def Mock_Delete_def Mock_List_def Mock_SetToken_def
  NewMockVaultApi_def test_adapter_def empty_secret_def creds_secret_def
  lookup_retry_mock_def lookup_login_fails_mock_def credential_files_def refusing_api_def
  attempts_def outcome_def Let_def

lemma emit_simps [simp]: "emit ev (r, c, tr) = (r, c, ev # tr)"
  by (simp add: emit_def)





lemma mock_login_failure_case:
  "perform (fst NewMockVaultApi) credential_files test_adapter (LookupReq ''x0c0s1b0'')
     lookup_login_fails_mock =
   (Inl (AuthenticationFailure (OtherFailure ''Token Failed'')),
    lookup_login_fails_mock
      \<lparr>ReadNum := 1,
       ReadData := [\<lparr>Input = ''secret/hms-cred/x0c0s1b0'',
                     Output = Inl (PermissionDenied ''Code: 403'')\<rparr>],
       WriteNum := 1,
       WriteData := [\<lparr>Input = (''auth/kubernetes/login'', [(''jwt'', ''jwt''), (''role'', ''role'')]),
                      Output = Inl (OtherFailure ''Token Failed'')\<rparr>]\<rparr>,
    [Attempt (ClientRead ''secret/hms-cred/x0c0s1b0'') (Some (PermissionDenied ''Code: 403'')),
     Login (ClientWrite ''auth/kubernetes/login'' [(''jwt'', ''jwt''), (''role'', ''role'')])
       (Some (OtherFailure ''Token Failed''))])"
  by (simp add: adapter_defs)

subsection \<open>Successful retry\<close>

text \<open>
  C4. For each of the four operations of the remote adapter, with a retry budget of at
  least one: if the client answers the first underlying call with a permission-denied
  error, the login exchange then succeeds, and the client, with the new token installed,
  answers the retried call with success, then the operation returns that success and
  the underlying calls are exactly the failed attempt, the login and the retried attempt.
\<close>

theorem auth_retry_success:
  assumes budget: "0 < VaultRetry ss"
    and denied: "issue api (underlying ss req) c = (Inl (PermissionDenied msg), c1)"
    and login: "issue api (login_request rf ss) c1 = (Inr tok, c2)"
    and retried: "issue api (underlying ss req) (api_SetToken api (client_token tok) c2)
                    = (Inr s, c3)"
  shows "perform api rf ss req c =
           (Inr s, c3,
            [Attempt (underlying ss req) (Some (PermissionDenied msg)),
             Login (login_request rf ss) None,
             Attempt (underlying ss req) None])"
proof -
  from budget obtain b where b: "VaultRetry ss = Suc b"
    by (cases "VaultRetry ss") auto
  show ?thesis
    using denied login retried
    by (simp add: perform_def b login_exchange_def)
qed

theorem auth_retry_success_witness:
  "0 < VaultRetry test_adapter \<and>
   fst (issue (fst NewMockVaultApi) (underlying test_adapter (LookupReq ''x0c0s1b0''))
          lookup_retry_mock) = Inl (PermissionDenied ''Code: 403'') \<and>
   fst (issue (fst NewMockVaultApi) (login_request credential_files test_adapter)
          (snd (issue (fst NewMockVaultApi) (underlying test_adapter (LookupReq ''x0c0s1b0''))
                  lookup_retry_mock))) = Inr empty_secret \<and>
   fst (perform (fst NewMockVaultApi) credential_files test_adapter (LookupReq ''x0c0s1b0'')
          lookup_retry_mock) = Inr creds_secret \<and>
   snd (snd (perform (fst NewMockVaultApi) credential_files test_adapter
               (LookupReq ''x0c0s1b0'') lookup_retry_mock)) =
     [Attempt (ClientRead ''secret/hms-cred/x0c0s1b0'') (Some (PermissionDenied ''Code: 403'')),
      Login (ClientWrite ''auth/kubernetes/login'' [(''jwt'', ''jwt''), (''role'', ''role'')]) None,
      Attempt (ClientRead ''secret/hms-cred/x0c0s1b0'') None] \<and>
   map Input (ReadData (fst (snd (perform (fst NewMockVaultApi) credential_files test_adapter
                                     (LookupReq ''x0c0s1b0'') lookup_retry_mock)))) =
     [''secret/hms-cred/x0c0s1b0'', ''secret/hms-cred/x0c0s1b0''] \<and>
   map (\<lambda>e. fst (Input e))
     (WriteData (fst (snd (perform (fst NewMockVaultApi) credential_files test_adapter
                             (LookupReq ''x0c0s1b0'') lookup_retry_mock)))) =
     [''auth/kubernetes/login'']"
proof -
  let ?api = "fst NewMockVaultApi"
  let ?x = "underlying test_adapter (LookupReq ''x0c0s1b0'')"
  let ?c1 = "snd (issue ?api ?x lookup_retry_mock)"
  let ?c2 = "snd (issue ?api (login_request credential_files test_adapter) ?c1)"
  let ?c3 = "snd (issue ?api ?x (api_SetToken ?api (client_token empty_secret) ?c2))"
  have b: "0 < VaultRetry test_adapter"
    by (simp add: test_adapter_def)
  have d: "issue ?api ?x lookup_retry_mock = (Inl (PermissionDenied ''Code: 403''), ?c1)"
    by (simp add: adapter_defs)
  have l: "issue ?api (login_request credential_files test_adapter) ?c1 = (Inr empty_secret, ?c2)"
    by (simp add: adapter_defs)
  have r: "issue ?api ?x (api_SetToken ?api (client_token empty_secret) ?c2)
             = (Inr creds_secret, ?c3)"
    by (simp add: adapter_defs)
  have c3: "map Input (ReadData ?c3) = [''secret/hms-cred/x0c0s1b0'', ''secret/hms-cred/x0c0s1b0'']
            \<and> map (\<lambda>e. fst (Input e)) (WriteData ?c3) = [''auth/kubernetes/login'']"
    by (simp add: adapter_defs)
  have x: "?x = ClientRead ''secret/hms-cred/x0c0s1b0''"
    by (simp add: adapter_defs)
  have lr: "login_request credential_files test_adapter
              = ClientWrite ''auth/kubernetes/login'' [(''jwt'', ''jwt''), (''role'', ''role'')]"
    by (simp add: adapter_defs)
  have d': "fst (issue ?api ?x lookup_retry_mock) = Inl (PermissionDenied ''Code: 403'')"
    by (simp add: adapter_defs)
  have p: "perform ?api credential_files test_adapter (LookupReq ''x0c0s1b0'') lookup_retry_mock
             = (Inr creds_secret, ?c3,
                [Attempt ?x (Some (PermissionDenied ''Code: 403'')),
                 Login (login_request credential_files test_adapter) None,
                 Attempt ?x None])"
    by (rule auth_retry_success [OF b d l r])
  have l': "fst (issue ?api (login_request credential_files test_adapter) ?c1) = Inr empty_secret"
    by (simp add: adapter_defs)
  show ?thesis
    unfolding p using b d' l' c3 by (simp add: x lr)
qed

subsection \<open>Exhausted retry budget\<close>



end
